theory Spec2Isabelle
  imports Main
begin

section \<open>Shiptivity API: the clients table and its handlers (server.js)\<close>

subsection \<open>Data\<close>

text \<open>
  Modelled from the spec: the declaration of the \<open>clients\<close> table. The table lives in
  \<open>clients.db\<close>, which is not among the sources; the spec's data model gives a record as
  \<open>{id: integer (unique, immutable, primary key), name, description, status, priority}\<close>.
  A row is a record with these five columns, the table is the list of its rows in scan
  order, and \<open>id\<close> is the primary key: an INSERT of an id that is already there is refused
  (see \<open>insert_client\<close>).
\<close>

record client =
  client_id :: int
  client_name :: string
  client_description :: string
  client_status :: string
  client_priority :: int

type_synonym table = "client list"

text \<open>
  The values a handler sees in \<open>req.body\<close> and gets from \<open>parseInt\<close>: the JSON values,
  \<open>undefined\<close> for an absent field, and \<open>NaN\<close>. Numbers are integers, as the API documents
  \<open>priority\<close>. An object is the list of its keys with their values.
\<close>

datatype jsval =
    JUndefined | JNull | JBool bool | JNum int | JNaN | JStr string
  | JArr "jsval list" | JObj "(string \<times> jsval) list"

fun is_scalar :: "jsval \<Rightarrow> bool" where
  "is_scalar (JArr xs) = False"
| "is_scalar (JObj obj) = False"
| "is_scalar v = True"

text \<open>The exceptions that can leave a handler.\<close>

datatype error =
    BindTypeError              \<comment> \<open>TypeError: SQLite3 can only bind numbers, strings, bigints, buffers, and null\<close>
  | TooManyParams              \<comment> \<open>RangeError: Too many parameter values were provided\<close>
  | TooFewParams               \<comment> \<open>RangeError: Too few parameter values were provided\<close>
  | MissingNamedParams         \<comment> \<open>TypeError: Missing named parameters\<close>
  | MissingNamedParam string   \<comment> \<open>RangeError: Missing named parameter "..."\<close>
  | TwoObjects                 \<comment> \<open>TypeError: You cannot specify named parameters in two different objects\<close>
  | SqlSyntaxError             \<comment> \<open>SqliteError raised by db.prepare on malformed SQL\<close>
  | UniqueConstraint           \<comment> \<open>SqliteError: UNIQUE constraint failed: clients.id\<close>
  | DatatypeMismatch           \<comment> \<open>a value that does not have its column's type\<close>
  | ReadOfUndefined string     \<comment> \<open>TypeError: Cannot read properties of undefined (reading '...')\<close>
  | WriteOfUndefined string    \<comment> \<open>TypeError: Cannot set properties of undefined (setting '...')\<close>
  | HeadersSent                \<comment> \<open>Error [ERR_HTTP_HEADERS_SENT]: Cannot set headers after they are sent to the client\<close>

subsection \<open>The driver: binding parameters of a prepared statement\<close>

text \<open>
  \<open>better-sqlite3\<close> binds the arguments of \<open>.get\<close>, \<open>.all\<close> and \<open>.run\<close> to the parameters
  of the statement. A parameter is anonymous (\<open>?\<close>) or named (\<open>$name\<close>; the driver keeps
  the name without its prefix character); parameters are numbered from 1. An argument that
  is an array gives a value to one anonymous parameter after the other; an argument that is
  a plain object binds the named parameters by key; any other argument is a value for the
  next anonymous parameter.
\<close>

datatype param = Anon | Named string

datatype sqlval = SNull | SInt int | SText string

type_synonym binding = "(nat \<times> sqlval) list"

text \<open>
  The values the driver binds: numbers (\<open>NaN\<close> is stored as NULL), strings, and \<open>null\<close>
  and \<open>undefined\<close>, both as NULL. A boolean, an array or an object as a value is refused.
\<close>

fun to_sql :: "jsval \<Rightarrow> sqlval option" where
  "to_sql (JNum n) = Some (SInt n)"
| "to_sql JNaN = Some SNull"
| "to_sql (JStr s) = Some (SText s)"
| "to_sql JNull = Some SNull"
| "to_sql JUndefined = Some SNull"
| "to_sql (JBool b) = None"
| "to_sql (JArr xs) = None"
| "to_sql (JObj obj) = None"

text \<open>
  Binding one value at an index: the type of the value is checked first, then SQLite
  refuses an index beyond the statement's parameters.
\<close>

definition bind_value :: "param list \<Rightarrow> jsval \<Rightarrow> nat \<Rightarrow> error + (nat \<times> sqlval)" where
  "bind_value ps v i =
     (case to_sql v of
        None \<Rightarrow> Inl BindTypeError
      | Some x \<Rightarrow> if 1 \<le> i \<and> i \<le> length ps then Inr (i, x) else Inl TooManyParams)"

text \<open>
  The next anonymous index after \<open>i\<close>: the driver steps over named parameters, and stops
  at the first index that has no name (an anonymous parameter, or an index past the end).
\<close>

function next_anon_index :: "param list \<Rightarrow> nat \<Rightarrow> nat" where
  "next_anon_index ps i =
     (if i < length ps \<and> ps ! i \<noteq> Anon then next_anon_index ps (Suc i) else Suc i)"
  by pat_completeness auto
termination
  by (relation "measure (\<lambda>(ps, i). length ps - i)") auto

text \<open>
  Binding an object: every named parameter, in index order, must be an own key of the
  object.
\<close>

fun bind_object :: "param list \<Rightarrow> (nat \<times> param) list \<Rightarrow> (string \<times> jsval) list \<Rightarrow> error + binding" where
  "bind_object ps [] obj = Inr []"
| "bind_object ps ((i, Anon) # rest) obj = bind_object ps rest obj"
| "bind_object ps ((i, Named k) # rest) obj =
     (case map_of obj k of
        None \<Rightarrow> Inl (MissingNamedParam k)
      | Some v \<Rightarrow>
          (case bind_value ps v i of
             Inl e \<Rightarrow> Inl e
           | Inr b \<Rightarrow>
               (case bind_object ps rest obj of
                  Inl e \<Rightarrow> Inl e
                | Inr bs \<Rightarrow> Inr (b # bs))))"

definition numbered :: "param list \<Rightarrow> (nat \<times> param) list" where
  "numbered ps = zip [1 ..< Suc (length ps)] ps"

text \<open>
  Binding an array: each element is a value for the next anonymous index; the first
  element that is refused ends the binding.
\<close>

function bind_array :: "param list \<Rightarrow> jsval list \<Rightarrow> nat \<Rightarrow> binding \<Rightarrow> error + (nat \<times> binding)" where
  "bind_array ps [] anon_index acc = Inr (anon_index, acc)"
| "bind_array ps (v # vs) anon_index acc =
     (let i = next_anon_index ps anon_index in
      case bind_value ps v i of
        Inl e \<Rightarrow> Inl e
      | Inr b \<Rightarrow> bind_array ps vs i (acc @ [b]))"
  by pat_completeness auto
termination
  by (relation "measure (\<lambda>(ps, vs, anon_index, acc). length vs)") auto

text \<open>
  The arguments in order; the state is the last anonymous index used, whether an object
  has been bound, and the bindings made so far.
\<close>

function (sequential) bind_args :: "param list \<Rightarrow> jsval list \<Rightarrow> nat \<Rightarrow> bool \<Rightarrow> binding \<Rightarrow> error + (bool \<times> binding)" where
  "bind_args ps [] anon_index bound_object acc = Inr (bound_object, acc)"
| "bind_args ps (JArr vs # rest) anon_index bound_object acc =
     (case bind_array ps vs anon_index acc of
        Inl e \<Rightarrow> Inl e
      | Inr (i, acc') \<Rightarrow> bind_args ps rest i bound_object acc')"
| "bind_args ps (JObj obj # rest) anon_index bound_object acc =
     (if bound_object then Inl TwoObjects
      else
        (case bind_object ps (numbered ps) obj of
           Inl e \<Rightarrow> Inl e
         | Inr bs \<Rightarrow> bind_args ps rest anon_index True (acc @ bs)))"
| "bind_args ps (v # rest) anon_index bound_object acc =
     (let i = next_anon_index ps anon_index in
      case bind_value ps v i of
        Inl e \<Rightarrow> Inl e
      | Inr b \<Rightarrow> bind_args ps rest i bound_object (acc @ [b]))"
  by pat_completeness auto
termination
  by (relation "measure (\<lambda>(ps, args, anon_index, bound_object, acc). length args)") auto

definition has_named :: "param list \<Rightarrow> bool" where
  "has_named ps = (filter (\<lambda>p. p \<noteq> Anon) ps \<noteq> [])"

definition bind :: "param list \<Rightarrow> jsval list \<Rightarrow> error + binding" where
  "bind ps args =
     (case bind_args ps args 0 False [] of
        Inl e \<Rightarrow> Inl e
      | Inr (bound_object, bs) \<Rightarrow>
          if length bs = length ps then Inr bs
          else if length bs < length ps then
            (if \<not> bound_object \<and> has_named ps then Inl MissingNamedParams else Inl TooFewParams)
          else Inl TooManyParams)"

subsection \<open>The statements of server.js\<close>

text \<open>
  Each statement is its parameter list, bound by the driver, and what SQLite does with the
  bound values. A bound value equals a column when it has the column's type and value; a
  bound value of another type is taken not to equal the column.
\<close>

text \<open>
  The table of the model is typed: a bound value is stored in a column only when it has
  the column's type (an integer for \<open>id\<close> and \<open>priority\<close>, a text for the others).
\<close>

fun as_int :: "sqlval option \<Rightarrow> int option" where
  "as_int (Some (SInt n)) = Some n"
| "as_int _ = None"

fun as_text :: "sqlval option \<Rightarrow> string option" where
  "as_text (Some (SText s)) = Some s"
| "as_text _ = None"

definition new_row :: "binding \<Rightarrow> client option" where
  "new_row bs =
     Option.bind (as_int (map_of bs 1)) (\<lambda>i.
     Option.bind (as_text (map_of bs 2)) (\<lambda>n.
     Option.bind (as_text (map_of bs 3)) (\<lambda>d.
     Option.bind (as_text (map_of bs 4)) (\<lambda>s.
     Option.bind (as_int (map_of bs 5)) (\<lambda>p.
       Some \<lparr>client_id = i, client_name = n, client_description = d,
             client_status = s, client_priority = p\<rparr>)))))"

text \<open>\<open>select * from clients where id = ? limit 1\<close> and \<open>select * from clients where id = ?\<close>\<close>

definition select_by_id :: "table \<Rightarrow> jsval \<Rightarrow> error + client option" where
  "select_by_id db id' =
     (case bind [Anon] [id'] of
        Inl e \<Rightarrow> Inl e
      | Inr bs \<Rightarrow> Inr (find (\<lambda>c. map_of bs 1 = Some (SInt (client_id c))) db))"

text \<open>\<open>select * from clients where status = ?\<close>\<close>

definition select_by_status :: "table \<Rightarrow> jsval \<Rightarrow> error + client list" where
  "select_by_status db status =
     (case bind [Anon] [status] of
        Inl e \<Rightarrow> Inl e
      | Inr bs \<Rightarrow> Inr (filter (\<lambda>c. map_of bs 1 = Some (SText (client_status c))) db))"

text \<open>
  \<open>SELECT * FROM clients WHERE status = 'complete' ORDER BY 'priority'\<close>: the rows are
  ordered by the string literal \<open>'priority'\<close>, which is the same for every row, so they
  come in scan order.
\<close>

definition select_complete :: "table \<Rightarrow> client list" where
  "select_complete db = filter (\<lambda>c. client_status c = ''complete'') db"

text \<open>
  \<open>SELECT * FROM clients WHERE status = $status AND priority = $priority\<close>, called as
  \<open>.get(status, priority)\<close>: two arguments for a statement whose two parameters are named.
\<close>

definition select_conflict :: "table \<Rightarrow> jsval \<Rightarrow> jsval \<Rightarrow> error + client option" where
  "select_conflict db status priority =
     (case bind [Named ''status'', Named ''priority''] [status, priority] of
        Inl e \<Rightarrow> Inl e
      | Inr bs \<Rightarrow>
          Inr (find (\<lambda>c. map_of bs 1 = Some (SText (client_status c)) \<and>
                         map_of bs 2 = Some (SInt (client_priority c))) db))"

text \<open>
  \<open>SELECT * clients WHERE status = $status AND priority >= $priority ORDER BY 'priority'\<close>:
  the text has no \<open>FROM\<close> between \<open>*\<close> and the table name, so \<open>db.prepare\<close> raises a
  syntax error and \<open>.all\<close> is not reached.
\<close>

definition select_swimlane :: "table \<Rightarrow> jsval \<Rightarrow> jsval \<Rightarrow> error + client list" where
  "select_swimlane db status priority = Inl SqlSyntaxError"

text \<open>
  \<open>UPDATE clients SET priority = $priority WHERE id = $id\<close>, run with the object
  \<open>{priority, id}\<close>.
\<close>

definition update_priority :: "table \<Rightarrow> jsval \<Rightarrow> jsval \<Rightarrow> error + table" where
  "update_priority db priority id' =
     (case bind [Named ''priority'', Named ''id''] [JObj [(''priority'', priority), (''id'', id')]] of
        Inl e \<Rightarrow> Inl e
      | Inr bs \<Rightarrow>
          (case as_int (map_of bs 1) of
             Some p \<Rightarrow>
               Inr (map (\<lambda>c. if map_of bs 2 = Some (SInt (client_id c))
                              then c\<lparr>client_priority := p\<rparr> else c) db)
           | None \<Rightarrow> Inl DatatypeMismatch))"

text \<open>
  \<open>UPDATE clients SET status = $status, priority = $priority WHERE id = $id\<close>, run with
  the object \<open>{$status: status, $priority: priority, $id: id}\<close>: the keys carry the prefix
  character, the driver's names do not.
\<close>

definition update_status_priority :: "table \<Rightarrow> jsval \<Rightarrow> jsval \<Rightarrow> jsval \<Rightarrow> error + table" where
  "update_status_priority db status priority id' =
     (case bind [Named ''status'', Named ''priority'', Named ''id'']
             [JObj [(''$status'', status), (''$priority'', priority), (''$id'', id')]] of
        Inl e \<Rightarrow> Inl e
      | Inr bs \<Rightarrow>
          (case as_text (map_of bs 1) of
             None \<Rightarrow> Inl DatatypeMismatch
           | Some s \<Rightarrow>
               (case as_int (map_of bs 2) of
                  None \<Rightarrow> Inl DatatypeMismatch
                | Some p \<Rightarrow>
                    Inr (map (\<lambda>c. if map_of bs 3 = Some (SInt (client_id c))
                                   then c\<lparr>client_status := s, client_priority := p\<rparr> else c) db))))"

text \<open>
  \<open>INSERT INTO clients VALUES (?, ?, ?, ?, ?)\<close>: five anonymous parameters. The new row
  is refused when its id is already in the table (primary key).
\<close>

definition insert_client :: "table \<Rightarrow> jsval \<Rightarrow> jsval \<Rightarrow> jsval \<Rightarrow> jsval \<Rightarrow> jsval \<Rightarrow> error + table" where
  "insert_client db id' name description status priority =
     (case bind [Anon, Anon, Anon, Anon, Anon]
             [id', name, description, status, priority] of
        Inl e \<Rightarrow> Inl e
      | Inr bs \<Rightarrow>
          (case new_row bs of
             None \<Rightarrow> Inl DatatypeMismatch
           | Some row \<Rightarrow>
               if client_id row \<in> set (map client_id db) then Inl UniqueConstraint
               else Inr (db @ [row])))"

subsection \<open>Requests and responses\<close>

text \<open>
  \<open>parseInt(s, 10)\<close>: leading white space is skipped, a sign is read, then the longest
  run of decimal digits; with no digit the result is \<open>NaN\<close>. The model reads ASCII white
  space and gives the integer exactly (JavaScript rounds it to a double above \<open>2^53\<close>).
\<close>

definition is_space :: "char \<Rightarrow> bool" where
  "is_space c = (c \<in> set [CHR '' '', CHR 0x09, CHR 0x0A, CHR 0x0B, CHR 0x0C, CHR 0x0D])"

definition is_digit :: "char \<Rightarrow> bool" where
  "is_digit c = (c \<in> set ''0123456789'')"

definition digits_value :: "string \<Rightarrow> int" where
  "digits_value ds = foldl (\<lambda>n c. 10 * n + (int (of_char c) - 48)) 0 ds"

definition parseInt10 :: "string \<Rightarrow> jsval" where
  "parseInt10 s =
     (let t = dropWhile is_space s;
          negative = (case t of c # _ \<Rightarrow> c = CHR ''-'' | [] \<Rightarrow> False);
          u = (case t of c # r \<Rightarrow> if c = CHR ''-'' \<or> c = CHR ''+'' then r else t | [] \<Rightarrow> t);
          ds = takeWhile is_digit u
      in if ds = [] then JNaN
         else JNum (if negative then - digits_value ds else digits_value ds))"

text \<open>
  What a handler does: the \<open>res.status(code).send(body)\<close> calls that return, in order
  (the client receives the first), the exception that leaves it, if any, and the table as
  the handler leaves it. No statement runs inside a transaction, so a write made before an
  exception stays.
\<close>

datatype body =
    Message string string      \<comment> \<open>\<open>{message, long_message}\<close>\<close>
  | Clients "client list"
  | Client "client option"     \<comment> \<open>\<open>None\<close> is \<open>undefined\<close>\<close>
  | ClientsAssigned "client list" jsval int jsval
      \<comment> \<open>the array \<open>clients\<close> after the client found for an id was assigned a priority and a status\<close>

record outcome =
  sent :: "(nat \<times> body) list"
  thrown :: "error option"
  store :: table

definition raise :: "(nat \<times> body) list \<Rightarrow> table \<Rightarrow> error \<Rightarrow> outcome" where
  "raise ss db e = \<lparr>sent = ss, thrown = Some e, store = db\<rparr>"

text \<open>
  \<open>res.status(code).send(body)\<close>. Once a response has been sent, sending an object or an
  array sets a header again and Express raises \<open>ERR_HTTP_HEADERS_SENT\<close>; sending
  \<open>undefined\<close> sets no header and returns.
\<close>

definition send :: "(nat \<times> body) list \<Rightarrow> table \<Rightarrow> nat \<Rightarrow> body \<Rightarrow> outcome" where
  "send sent0 db code b =
     (if sent0 \<noteq> [] \<and> b \<noteq> Client None then raise sent0 db HeadersSent
      else \<lparr>sent = sent0 @ [(code, b)], thrown = None, store = db\<rparr>)"

datatype validation = Valid | Invalid string string

subsection \<open>validateId, validatePriority\<close>

definition validateId :: "table \<Rightarrow> jsval \<Rightarrow> error + validation" where
  "validateId db id' =
     (if id' = JNaN then Inr (Invalid ''Invalid id provided.'' ''Id can only be integer.'')
      else
        (case select_by_id db id' of
           Inl e \<Rightarrow> Inl e
         | Inr None \<Rightarrow> Inr (Invalid ''Invalid id provided.'' ''Cannot find client with that id.'')
         | Inr (Some client) \<Rightarrow> Inr Valid))"

definition validatePriority :: "jsval \<Rightarrow> validation" where
  "validatePriority priority =
     (if priority = JNaN
      then Invalid ''Invalid priority provided.'' ''Priority can only be positive integer.''
      else Valid)"

text \<open>Shared by the two handlers with \<open>:id\<close>: the 400 sent when the id is not valid.\<close>

definition reject :: "validation \<Rightarrow> (nat \<times> body) list" where
  "reject v = (case v of Valid \<Rightarrow> [] | Invalid m l \<Rightarrow> [(400, Message m l)])"

subsection \<open>GET /api/v1/clients\<close>

definition get_clients :: "table \<Rightarrow> string option \<Rightarrow> outcome" where
  "get_clients db status =
     (case status of
        None \<Rightarrow> send [] db 200 (Clients db)
      | Some s \<Rightarrow>
          if s = [] then send [] db 200 (Clients db)
          else if s \<noteq> ''backlog'' \<and> s \<noteq> ''in-progress'' \<and> s \<noteq> ''complete'' then
            send [] db 400 (Message ''Invalid status provided.''
              ''Status can only be one of the following: [backlog | in-progress | complete].'')
          else
            (case select_by_status db (JStr s) of
               Inl e \<Rightarrow> raise [] db e
             | Inr clients \<Rightarrow> send [] db 200 (Clients clients)))"

subsection \<open>GET /api/v1/clients/:id\<close>

text \<open>The 400 is sent without a \<open>return\<close>: the handler goes on to the 200.\<close>

definition get_client :: "table \<Rightarrow> string \<Rightarrow> outcome" where
  "get_client db rawid =
     (let id' = parseInt10 rawid in
      case validateId db id' of
        Inl e \<Rightarrow> raise [] db e
      | Inr v \<Rightarrow>
          (case select_by_id db id' of
             Inl e \<Rightarrow> raise (reject v) db e
           | Inr row \<Rightarrow> send (reject v) db 200 (Client row)))"

subsection \<open>PUT /api/v1/clients/:id\<close>

definition newLowestPriority :: "table \<Rightarrow> error + int" where
  "newLowestPriority db =
     (let complete_swimlane = select_complete db in
      if complete_swimlane = [] then Inl (ReadOfUndefined ''priority'')
      else Inr (client_priority (last complete_swimlane) + 1))"

text \<open>
  \<open>clientSwimlane.forEach\<close>: one UPDATE for each row of the swimlane, stopping at the
  first exception with the writes made so far.
\<close>

fun forEach_updatePriority :: "table \<Rightarrow> client list \<Rightarrow> table \<times> error option" where
  "forEach_updatePriority db [] = (db, None)"
| "forEach_updatePriority db (client # rest) =
     (case update_priority db (JNum (client_priority client + 1)) (JNum (client_id client)) of
        Inl e \<Rightarrow> (db, Some e)
      | Inr db' \<Rightarrow> forEach_updatePriority db' rest)"

definition shift_swimlane :: "table \<Rightarrow> jsval \<Rightarrow> jsval \<Rightarrow> table \<times> error option" where
  "shift_swimlane db status priority =
     (case select_swimlane db status priority of
        Inl e \<Rightarrow> (db, Some e)
      | Inr clientSwimlane \<Rightarrow> forEach_updatePriority db clientSwimlane)"

text \<open>
  \<open>status == "complete"\<close>. A string is compared as it is; a number, a boolean, \<open>null\<close> and
  \<open>undefined\<close> are never loosely equal to \<open>"complete"\<close>; an object or an array is compared
  by its text. The text of a plain object is \<open>[object Object]\<close>. The text of an array is the
  texts of its elements with commas between them, so it is \<open>complete\<close> only for an array
  of one element whose text is \<open>complete\<close>: the string itself, or again such an array.
\<close>

fun loosely_complete :: "jsval \<Rightarrow> bool" where
  "loosely_complete (JStr s) = (s = ''complete'')"
| "loosely_complete (JArr [x]) = loosely_complete x"
| "loosely_complete v = False"

text \<open>
  The branch \<open>else if (status == "complete")\<close>. \<open>newLowestPriority\<close> is called twice, for
  \<open>clientPriority\<close> and for \<open>client.priority\<close>. \<open>client\<close> is the object that \<open>clients.find\<close>
  returned, so assigning its fields changes that element of \<open>clients\<close>.
\<close>

definition mark_complete ::
  "table \<Rightarrow> (nat \<times> body) list \<Rightarrow> client list \<Rightarrow> jsval \<Rightarrow> client option \<Rightarrow> jsval \<Rightarrow> outcome" where
  "mark_complete db sent0 clients id' client status =
     (case newLowestPriority db of
        Inl e \<Rightarrow> raise sent0 db e
      | Inr clientPriority \<Rightarrow>
          (case newLowestPriority db of
             Inl e \<Rightarrow> raise sent0 db e
           | Inr p \<Rightarrow>
               (case client of
                  None \<Rightarrow> raise sent0 db (WriteOfUndefined ''priority'')
                | Some found \<Rightarrow>
                    (case insert_client db (JNum (client_id found)) (JStr (client_name found))
                            (JStr (client_description found)) status (JNum clientPriority) of
                       Inl e \<Rightarrow> raise sent0 db e
                     | Inr db' \<Rightarrow> send sent0 db' 200 (ClientsAssigned clients id' p status)))))"

definition put_client :: "table \<Rightarrow> string \<Rightarrow> jsval \<Rightarrow> jsval \<Rightarrow> outcome" where
  "put_client db rawid status priority =
     (let id' = parseInt10 rawid in
      case validateId db id' of
        Inl e \<Rightarrow> raise [] db e
      | Inr v \<Rightarrow>
          (let sent0 = reject v;
               clients = db;
               client = find (\<lambda>c. JNum (client_id c) = id') clients
           in
           if validatePriority priority = Valid \<and> priority \<noteq> JUndefined then
             (case select_conflict db status priority of
                Inl e \<Rightarrow> raise sent0 db e
              | Inr conflictClient \<Rightarrow>
                  (case (if conflictClient \<noteq> None then shift_swimlane db status priority
                         else (db, None)) of
                     (db1, Some e) \<Rightarrow> raise sent0 db1 e
                   | (db1, None) \<Rightarrow>
                       (case update_status_priority db1 status priority id' of
                          Inl e \<Rightarrow> raise sent0 db1 e
                        | Inr db2 \<Rightarrow> send sent0 db2 200 (Clients clients))))
           else if loosely_complete status then
             mark_complete db sent0 clients id' client status
           else send sent0 db 200 (Clients clients)))"

subsection \<open>Sequences of PUT requests, lanes, example tables\<close>

type_synonym put_request = "string \<times> jsval \<times> jsval"

text \<open>One request after the other, each on the table the previous one left.\<close>

fun put_clients :: "table \<Rightarrow> put_request list \<Rightarrow> table" where
  "put_clients db [] = db"
| "put_clients db ((rawid, status, priority) # rest) =
     put_clients (store (put_client db rawid status priority)) rest"

text \<open>
  A request succeeds when no exception leaves the handler and the response the client
  receives (the first one sent) has status 200.
\<close>

definition succeeded :: "outcome \<Rightarrow> bool" where
  "succeeded r =
     (thrown r = None \<and> (case sent r of [] \<Rightarrow> False | (code, b) # _ \<Rightarrow> code = 200))"

definition lane_priorities :: "table \<Rightarrow> string \<Rightarrow> int list" where
  "lane_priorities db L = map client_priority (filter (\<lambda>c. client_status c = L) db)"


definition client_row :: "int \<Rightarrow> string \<Rightarrow> string \<Rightarrow> int \<Rightarrow> client" where
  "client_row i n s p =
     \<lparr>client_id = i, client_name = n, client_description = [],
      client_status = s, client_priority = p\<rparr>"

text \<open>Three clients in the backlog, at priorities 1, 2, 3; the other lanes are empty.\<close>

definition backlog_of_three :: table where
  "backlog_of_three =
     [client_row 1 ''A'' ''backlog'' 1, client_row 2 ''B'' ''backlog'' 2,
      client_row 3 ''C'' ''backlog'' 3]"


text \<open>
  One client in the backlog and five complete ones, whose priorities 1..5 are not in scan
  order: the last complete row has priority 4.
\<close>

definition board :: table where
  "board =
     [client_row 1 ''A'' ''backlog'' 1,
      client_row 2 ''B'' ''complete'' 5, client_row 3 ''C'' ''complete'' 1,
      client_row 4 ''D'' ''complete'' 2, client_row 5 ''E'' ''complete'' 3,
      client_row 6 ''F'' ''complete'' 4]"

section \<open>Properties\<close>

subsection \<open>Binding, the statements, and the shape of every PUT\<close>

declare next_anon_index.simps [simp del]

lemma next_anon_index_stop:
  "\<not> (i < length ps \<and> ps ! i \<noteq> Anon) \<Longrightarrow> next_anon_index ps i = Suc i"
  by (simp add: next_anon_index.simps)

lemma next_anon_index_named2: "next_anon_index [Named a, Named b] 0 = 3"
  by (simp add: next_anon_index.simps)

text \<open>
  Two arguments for two named parameters, the first a scalar: no index is left for it, so
  it is refused, for its type or as one value too many.
\<close>

lemma bind_scalar_on_named2:
  "is_scalar x \<Longrightarrow>
   bind [Named a, Named b] [x, y] = Inl (if to_sql x = None then BindTypeError else TooManyParams)"
  by (cases x) (simp_all add: bind_def bind_value_def next_anon_index_named2)

lemma select_conflict_scalar:
  "is_scalar status \<Longrightarrow>
   select_conflict db status priority =
     Inl (if to_sql status = None then BindTypeError else TooManyParams)"
  by (simp add: select_conflict_def bind_scalar_on_named2)

text \<open>The object's keys \<open>$status\<close>, \<open>$priority\<close>, \<open>$id\<close> are not the names \<open>status\<close>, ...\<close>

lemma update_status_priority_raises:
  "update_status_priority db status priority i = Inl (MissingNamedParam ''status'')"
  by (simp add: update_status_priority_def bind_def numbered_def)

lemma shift_swimlane_raises: "shift_swimlane db status priority = (db, Some SqlSyntaxError)"
  by (simp add: shift_swimlane_def select_swimlane_def)

lemma bind_one_number: "bind [Anon] [JNum n] = Inr [(1, SInt n)]"
  by (simp add: bind_def bind_value_def next_anon_index_stop)

lemma bind_one_NaN: "bind [Anon] [JNaN] = Inr [(1, SNull)]"
  by (simp add: bind_def bind_value_def next_anon_index_stop)

lemma select_by_id_JNum: "select_by_id db (JNum n) = Inr (find (\<lambda>c. client_id c = n) db)"
  by (simp add: select_by_id_def bind_one_number eq_commute)

lemma select_by_id_JNaN: "select_by_id db JNaN = Inr None"
  by (simp add: select_by_id_def bind_one_NaN find_None_iff)

lemma parseInt10_cases: "parseInt10 s = JNaN \<or> (\<exists>n. parseInt10 s = JNum n)"
  by (simp add: parseInt10_def Let_def)

text \<open>On the result of \<open>parseInt\<close>, \<open>validateId\<close> raises nothing.\<close>

lemma validateId_parseInt10: "\<exists>v. validateId db (parseInt10 s) = Inr v"
  using parseInt10_cases [of s]
  by (auto simp: validateId_def select_by_id_JNum split: option.splits)

lemma validateId_Invalid_no_row:
  assumes "validateId db (parseInt10 s) = Inr (Invalid m l)"
  shows "select_by_id db (parseInt10 s) = Inr None"
  using assms parseInt10_cases [of s]
  by (auto simp: validateId_def select_by_id_JNum select_by_id_JNaN split: option.splits)

lemma bind_five_values:
  "bind [Anon, Anon, Anon, Anon, Anon] [JNum i, JStr n, JStr d, JStr s, JNum p] =
     Inr [(1, SInt i), (2, SText n), (3, SText d), (4, SText s), (5, SInt p)]"
  by (simp add: bind_def bind_value_def Let_def next_anon_index_stop)

lemma bind_five_values_array:
  "bind [Anon, Anon, Anon, Anon, Anon] [JNum i, JStr n, JStr d, JArr [JStr s], JNum p] =
     Inr [(1, SInt i), (2, SText n), (3, SText d), (4, SText s), (5, SInt p)]"
  by (simp add: bind_def bind_value_def Let_def next_anon_index_stop)

lemma bind_five_values_nested:
  "bind [Anon, Anon, Anon, Anon, Anon] [JNum i, JStr n, JStr d, JArr [JArr xs], JNum p] =
     Inl BindTypeError"
  by (simp add: bind_def bind_value_def Let_def next_anon_index_stop)

text \<open>
  A status that is loosely equal to \<open>"complete"\<close> is the string, the array of the string,
  or an array of an array; the INSERT binds the first two and refuses the third.
\<close>

lemma loosely_complete_cases:
  assumes "loosely_complete status"
  shows "status = JStr ''complete'' \<or> status = JArr [JStr ''complete''] \<or>
         (\<exists>xs. status = JArr [JArr xs])"
  using assms
  by (induction status rule: loosely_complete.induct) auto

lemma insert_client_existing:
  assumes "loosely_complete status" and "i \<in> set (map client_id db)"
  shows "\<exists>e. insert_client db (JNum i) (JStr n) (JStr d) status (JNum p) = Inl e"
  using loosely_complete_cases [OF assms(1)] assms(2)
  by (auto simp: insert_client_def bind_five_values bind_five_values_array
                 bind_five_values_nested new_row_def)

lemma find_client_id:
  "find (\<lambda>c. JNum (client_id c) = i) db = Some c \<Longrightarrow> client_id c \<in> set (map client_id db)"
  by (auto simp: find_Some_iff)

text \<open>
  The client that \<open>clients.find\<close> returned is a row of the table, so the INSERT of its id
  is refused: the branch for \<open>"complete"\<close> always ends in an exception.
\<close>

lemma mark_complete_raises:
  assumes "loosely_complete status"
  shows "\<exists>e. mark_complete db sent0 db i (find (\<lambda>c. JNum (client_id c) = i) db) status =
              raise sent0 db e"
proof (cases "newLowestPriority db")
  case (Inl e)
  then show ?thesis by (auto simp: mark_complete_def)
next
  case (Inr p)
  show ?thesis
  proof (cases "find (\<lambda>c. JNum (client_id c) = i) db")
    case None
    with Inr show ?thesis by (auto simp: mark_complete_def)
  next
    case (Some c)
    from insert_client_existing [OF assms find_client_id [OF Some]]
    obtain e where "insert_client db (JNum (client_id c)) (JStr (client_name c))
        (JStr (client_description c)) status (JNum p) = Inl e"
      by blast
    with Inr Some show ?thesis by (auto simp: mark_complete_def)
  qed
qed

text \<open>The three statements of the priority path, whatever the lookup finds.\<close>

lemma priority_path_raises:
  "\<exists>e. (case select_conflict db status priority of
          Inl e \<Rightarrow> raise sent0 db e
        | Inr conflictClient \<Rightarrow>
            (case (if conflictClient \<noteq> None then shift_swimlane db status priority
                   else (db, None)) of
               (db1, Some e) \<Rightarrow> raise sent0 db1 e
             | (db1, None) \<Rightarrow>
                 (case update_status_priority db1 status priority i of
                    Inl e \<Rightarrow> raise sent0 db1 e
                  | Inr db2 \<Rightarrow> send sent0 db2 200 (Clients clients)))) = raise sent0 db e"
  by (auto simp: shift_swimlane_raises update_status_priority_raises split: sum.splits)

text \<open>
  A PUT either answers 200 with the table as it read it, having written nothing, or ends
  in an exception, having written nothing.
\<close>

lemma put_client_shape:
  assumes "validateId db (parseInt10 rawid) = Inr v"
  shows "(v = Valid \<and> put_client db rawid status priority =
            \<lparr>sent = [(200, Clients db)], thrown = None, store = db\<rparr>)
       \<or> (\<exists>e. put_client db rawid status priority = raise (reject v) db e)"
proof (cases "validatePriority priority = Valid \<and> priority \<noteq> JUndefined")
  case True
  with assms
    priority_path_raises [where db = db and status = status and priority = priority
      and ?sent0.0 = "reject v" and i = "parseInt10 rawid" and clients = db]
  show ?thesis
    by (auto simp: put_client_def)
next
  case False
  show ?thesis
  proof (cases "loosely_complete status")
    case True
    with assms False mark_complete_raises [OF True, of db "reject v" "parseInt10 rawid"]
    show ?thesis
      by (auto simp: put_client_def)
  next
    case no: False
    with assms False show ?thesis
      by (cases v) (auto simp: put_client_def send_def reject_def raise_def)
  qed
qed

lemma put_client_store: "store (put_client db rawid status priority) = db"
  using validateId_parseInt10 [of db rawid] put_client_shape [of db rawid _ status priority]
  by (auto simp: raise_def)

lemma put_clients_store: "put_clients db requests = db"
  by (induction requests arbitrary: db) (auto simp: put_client_store)

subsection \<open>Claims about PUT /api/v1/clients/:id\<close>


text \<open>
  C2, at the claim's own example. The backlog holds priorities 1, 2, 3 and the client at 3
  is put at priority 2, without a status and with status \<open>"backlog"\<close>. The claim has the
  moved client at 2 and the former occupant of 2 at 3. The handler ends in the exception
  of the conflict lookup, and the table is as before: nothing is shifted, nothing is moved.
\<close>

theorem put_client_conflict_insertion_raises:
  "put_client backlog_of_three ''3'' JUndefined (JNum 2) =
     \<lparr>sent = [], thrown = Some TooManyParams, store = backlog_of_three\<rparr> \<and>
   put_client backlog_of_three ''3'' (JStr ''backlog'') (JNum 2) =
     \<lparr>sent = [], thrown = Some TooManyParams, store = backlog_of_three\<rparr> \<and>
   lane_priorities backlog_of_three ''backlog'' = [1, 2, 3]"
  by code_simp

text \<open>
  C3, at a table whose complete lane has the priorities 1..5. The claim gives the client
  that is marked complete the priority 6. \<open>newLowestPriority\<close> takes the last row in scan
  order, whose priority is 4, and returns 5; the handler then INSERTs a row with the id of
  the client, which the primary key refuses, and the client stays where it was.
\<close>

theorem put_client_complete_not_appended:
  "newLowestPriority board = Inr 5 \<and>
   put_client board ''1'' (JStr ''complete'') JUndefined =
     \<lparr>sent = [], thrown = Some UniqueConstraint, store = board\<rparr>"
  by code_simp



text \<open>
  C5, with an empty complete lane. The claim has the request fail with an empty-lane error.
  \<open>newLowestPriority\<close> has no guard: it reads \<open>priority\<close> of the last element of an empty
  array, and the TypeError of that read leaves the handler. Nothing is written.
\<close>

theorem put_client_empty_complete_lane:
  "select_complete backlog_of_three = [] \<and>
   newLowestPriority backlog_of_three = Inl (ReadOfUndefined ''priority'') \<and>
   put_client backlog_of_three ''1'' (JStr ''complete'') JUndefined =
     \<lparr>sent = [], thrown = Some (ReadOfUndefined ''priority''), store = backlog_of_three\<rparr>"
  by code_simp

text \<open>
  C6, at the claim's three inputs. The status \<open>"done"\<close> is not rejected: the PUT answers 200
  with the clients (the list handler rejects the same status with a 400). The priority
  \<open>-1\<close> passes \<open>validatePriority\<close>, and the request ends in the exception of the conflict
  lookup, not in a validation error. An id that no client has is answered with the 400,
  after which the handler reads the table and sends again, which raises.
\<close>

theorem put_client_invalid_inputs:
  "put_client backlog_of_three ''1'' (JStr ''done'') JUndefined =
     \<lparr>sent = [(200, Clients backlog_of_three)], thrown = None, store = backlog_of_three\<rparr> \<and>
   get_clients backlog_of_three (Some ''done'') =
     \<lparr>sent = [(400, Message ''Invalid status provided.''
        ''Status can only be one of the following: [backlog | in-progress | complete].'')],
      thrown = None, store = backlog_of_three\<rparr> \<and>
   validatePriority (JNum (- 1)) = Valid \<and>
   put_client backlog_of_three ''1'' JUndefined (JNum (- 1)) =
     \<lparr>sent = [], thrown = Some TooManyParams, store = backlog_of_three\<rparr> \<and>
   put_client backlog_of_three ''999999'' JUndefined JUndefined =
     \<lparr>sent = [(400, Message ''Invalid id provided.'' ''Cannot find client with that id.'')],
      thrown = Some HeadersSent, store = backlog_of_three\<rparr>"
  by code_simp


text \<open>
  C8. A PUT for an existing id with neither a status nor a priority leaves the table as it
  was; it answers 200 with the clients.
\<close>

theorem put_client_without_fields:
  assumes "validateId db (parseInt10 rawid) = Inr Valid"
  shows "put_client db rawid JUndefined JUndefined =
           \<lparr>sent = [(200, Clients db)], thrown = None, store = db\<rparr>"
  using assms by (simp add: put_client_def validatePriority_def reject_def send_def)

theorem put_client_without_fields_witness:
  "validateId backlog_of_three (parseInt10 ''2'') = Inr Valid \<and>
   put_client backlog_of_three ''2'' JUndefined JUndefined =
     \<lparr>sent = [(200, Clients backlog_of_three)], thrown = None, store = backlog_of_three\<rparr>"
proof -
  have v: "validateId backlog_of_three (parseInt10 ''2'') = Inr Valid"
    by code_simp
  from v put_client_without_fields [OF v] show ?thesis
    by blast
qed

text \<open>
  C9. A PUT whose priority is defined and not NaN ends in an exception before any write.
  The exception is that of the conflict lookup when its arguments do not bind; for a
  status that is a scalar they never do: the first value is refused, for its type or as one
  value too many. When the lookup binds and finds a conflict, it is the syntax error of
  the shift query; when it finds none, the last UPDATE misses its parameter \<open>status\<close>. In
  every case the table is as before, the request does not succeed, and no 200 is sent.
\<close>

theorem put_client_priority_raises:
  assumes "priority \<noteq> JUndefined" and "priority \<noteq> JNaN"
  shows "thrown (put_client db rawid status priority) =
           (case select_conflict db status priority of
              Inl e \<Rightarrow> Some e
            | Inr (Some conflictClient) \<Rightarrow> Some SqlSyntaxError
            | Inr None \<Rightarrow> Some (MissingNamedParam ''status'')) \<and>
         (is_scalar status \<longrightarrow>
            thrown (put_client db rawid status priority) =
              Some (if to_sql status = None then BindTypeError else TooManyParams)) \<and>
         thrown (put_client db rawid status priority) \<noteq> None \<and>
         store (put_client db rawid status priority) = db \<and>
         \<not> succeeded (put_client db rawid status priority) \<and>
         (\<forall>b. (200, b) \<notin> set (sent (put_client db rawid status priority)))"
proof -
  obtain v where v: "validateId db (parseInt10 rawid) = Inr v"
    using validateId_parseInt10 by blast
  let ?e = "case select_conflict db status priority of
              Inl e \<Rightarrow> e
            | Inr (Some conflictClient) \<Rightarrow> SqlSyntaxError
            | Inr None \<Rightarrow> MissingNamedParam ''status''"
  have r: "put_client db rawid status priority = raise (reject v) db ?e"
    using assms v
    by (simp add: put_client_def validatePriority_def shift_swimlane_raises
          update_status_priority_raises split: sum.splits option.splits)
  have t: "thrown (put_client db rawid status priority) = Some ?e"
    by (simp add: r raise_def)
  have s: "is_scalar status \<Longrightarrow> ?e = (if to_sql status = None then BindTypeError else TooManyParams)"
    by (simp add: select_conflict_scalar)
  from r t s show ?thesis
    by (cases v) (auto simp: raise_def reject_def succeeded_def split: sum.splits option.splits)
qed

theorem put_client_priority_raises_witness:
  "JNum 2 \<noteq> JUndefined \<and> JNum 2 \<noteq> JNaN \<and> JArr [] \<noteq> JUndefined \<and> JArr [] \<noteq> JNaN \<and>
   thrown (put_client backlog_of_three ''3'' JUndefined (JNum 2)) = Some TooManyParams \<and>
   thrown (put_client backlog_of_three ''3'' (JBool True) (JNum 2)) = Some BindTypeError \<and>
   thrown (put_client backlog_of_three ''3''
             (JObj [(''status'', JStr ''backlog''), (''priority'', JNum 2)]) (JArr [])) =
     Some SqlSyntaxError \<and>
   thrown (put_client backlog_of_three ''3''
             (JObj [(''status'', JStr ''backlog''), (''priority'', JNum 9)]) (JArr [])) =
     Some (MissingNamedParam ''status'') \<and>
   store (put_client backlog_of_three ''3'' JUndefined (JNum 2)) = backlog_of_three \<and>
   \<not> succeeded (put_client backlog_of_three ''3'' JUndefined (JNum 2))"
proof -
  have h: "JNum 2 \<noteq> JUndefined" "JNum 2 \<noteq> JNaN" "JArr [] \<noteq> JUndefined" "JArr [] \<noteq> JNaN"
    by simp_all
  note number = put_client_priority_raises [OF h(1) h(2), of backlog_of_three "''3''"]
  note array = put_client_priority_raises [OF h(3) h(4), of backlog_of_three "''3''"]
  have c: "select_conflict backlog_of_three
             (JObj [(''status'', JStr ''backlog''), (''priority'', JNum 2)]) (JArr []) =
           Inr (Some (client_row 2 ''B'' ''backlog'' 2))"
    by code_simp
  have n: "select_conflict backlog_of_three
             (JObj [(''status'', JStr ''backlog''), (''priority'', JNum 9)]) (JArr []) = Inr None"
    by code_simp
  have 1: "thrown (put_client backlog_of_three ''3'' JUndefined (JNum 2)) = Some TooManyParams"
    using number [of JUndefined, THEN conjunct2, THEN conjunct1] by simp
  have 2: "thrown (put_client backlog_of_three ''3'' (JBool True) (JNum 2)) = Some BindTypeError"
    using number [of "JBool True", THEN conjunct2, THEN conjunct1] by simp
  have 3: "thrown (put_client backlog_of_three ''3''
             (JObj [(''status'', JStr ''backlog''), (''priority'', JNum 2)]) (JArr [])) =
           Some SqlSyntaxError"
    using array [of "JObj [(''status'', JStr ''backlog''), (''priority'', JNum 2)]", THEN conjunct1]
    by (simp add: c)
  have 4: "thrown (put_client backlog_of_three ''3''
             (JObj [(''status'', JStr ''backlog''), (''priority'', JNum 9)]) (JArr [])) =
           Some (MissingNamedParam ''status'')"
    using array [of "JObj [(''status'', JStr ''backlog''), (''priority'', JNum 9)]", THEN conjunct1]
    by (simp add: n)
  from h 1 2 3 4 number [of JUndefined] show ?thesis
    by blast
qed

subsection \<open>Claims about GET /api/v1/clients/:id\<close>

text \<open>
  C10. When the id of a GET fails validation (it is not an integer, or no client has it),
  the handler sends the 400 with the message of \<open>validateId\<close> and then, having no
  \<open>return\<close>, also sends a 200 whose body is the result of querying the id again, which is
  \<open>undefined\<close>.
\<close>

theorem get_client_invalid_id_sends_twice:
  assumes "validateId db (parseInt10 rawid) = Inr (Invalid m l)"
  shows "get_client db rawid =
           \<lparr>sent = [(400, Message m l), (200, Client None)], thrown = None, store = db\<rparr> \<and>
         select_by_id db (parseInt10 rawid) = Inr None"
  using assms validateId_Invalid_no_row [OF assms]
  by (simp add: get_client_def reject_def send_def)

theorem get_client_invalid_id_sends_twice_witness:
  "validateId backlog_of_three (parseInt10 ''abc'') =
     Inr (Invalid ''Invalid id provided.'' ''Id can only be integer.'') \<and>
   get_client backlog_of_three ''abc'' =
     \<lparr>sent = [(400, Message ''Invalid id provided.'' ''Id can only be integer.''),
              (200, Client None)],
      thrown = None, store = backlog_of_three\<rparr> \<and>
   validateId backlog_of_three (parseInt10 ''77'') =
     Inr (Invalid ''Invalid id provided.'' ''Cannot find client with that id.'') \<and>
   get_client backlog_of_three ''77'' =
     \<lparr>sent = [(400, Message ''Invalid id provided.'' ''Cannot find client with that id.''),
              (200, Client None)],
      thrown = None, store = backlog_of_three\<rparr>"
proof -
  have a: "validateId backlog_of_three (parseInt10 ''abc'') =
             Inr (Invalid ''Invalid id provided.'' ''Id can only be integer.'')"
    by code_simp
  have b: "validateId backlog_of_three (parseInt10 ''77'') =
             Inr (Invalid ''Invalid id provided.'' ''Cannot find client with that id.'')"
    by code_simp
  from a b get_client_invalid_id_sends_twice [OF a] get_client_invalid_id_sends_twice [OF b]
  show ?thesis by blast
qed

end
